theory Spec2Isabelle
  imports Main
begin

section \<open>Missing-token reconciliation (src/missing\_tokens.py)\<close>

text \<open>
  A shallow embedding of \<^verbatim>\<open>src/missing_tokens.py\<close>. The script asks the Dune query
  service for the token addresses that lack metadata, reads symbol and decimals of every
  distinct address from an EVM node, and writes one text file per Dune engine.

  Everything the script does beyond computing values is explicit here:
  \<^item> Python exceptions are values of the type \<open>error\<close>; a function that may raise returns
    \<open>error + 'a\<close>, with \<open>Inl\<close> for the exception;
  \<^item> the collaborators the script only calls (web3, the Dune client, the process
    environment, the iteration order of a Python \<^verbatim>\<open>set\<close>) are the fields of a record
    \<open>world\<close> of oracles;
  \<^item> every observable effect (a query sent, a \<^verbatim>\<open>TokenDetails\<close> constructed, a contract
    read, a line printed, a file written) is an \<open>event\<close>; an effectful function returns
    its result together with the list of events it caused, in order.
\<close>

subsection \<open>Characters and Python string formatting\<close>

abbreviation BACKSLASH :: char where "BACKSLASH \<equiv> CHR 0x5C"
abbreviation TAB :: char where "TAB \<equiv> CHR 0x09"
abbreviation NEWLINE :: char where "NEWLINE \<equiv> CHR 0x0A"
abbreviation QUOTE :: char where "QUOTE \<equiv> CHR 0x27"

text \<open>\<^verbatim>\<open>str(n)\<close> and \<^verbatim>\<open>f"{n}"\<close> for a Python integer: decimal digits, a minus sign
  for a negative number.\<close>

definition digit_char :: "nat \<Rightarrow> char" where
  "digit_char d = ''0123456789'' ! d"

fun str_nat :: "nat \<Rightarrow> string" where
  "str_nat n = (if n < 10 then [digit_char n] else str_nat (n div 10) @ [digit_char (n mod 10)])"

definition str_int :: "int \<Rightarrow> string" where
  "str_int i = (if i < 0 then CHR ''-'' # str_nat (nat (- i)) else str_nat (nat i))"

text \<open>\<^verbatim>\<open>str.lower()\<close> on the characters an address is made of (ASCII): the letters
  \<^verbatim>\<open>A\<close> to \<^verbatim>\<open>Z\<close> move to \<^verbatim>\<open>a\<close> to \<^verbatim>\<open>z\<close>, every other character stays.\<close>

definition lower_char :: "char \<Rightarrow> char" where
  "lower_char c =
     (case map_of (zip ''ABCDEFGHIJKLMNOPQRSTUVWXYZ'' ''abcdefghijklmnopqrstuvwxyz'') c of
        Some l \<Rightarrow> l
      | None \<Rightarrow> c)"

definition lower :: "string \<Rightarrow> string" where
  "lower s = map lower_char s"

subsection \<open>Exceptions, networks, addresses\<close>

text \<open>The exceptions of the script. \<open>ValueError\<close> and \<open>KeyError\<close> are raised by the script's
  own code; \<open>ExternalError\<close> stands for any exception (a subclass of \<^verbatim>\<open>Exception\<close>) raised
  inside a collaborator: web3, the node, the Dune client.\<close>

datatype error = ValueError string | KeyError string | ExternalError string

text \<open>Modelled from the spec: the enumeration \<^verbatim>\<open>Network\<close> of \<^verbatim>\<open>src/utils.py\<close>, which is
  not among the sources. The script names its members \<^verbatim>\<open>MAINNET\<close> and \<^verbatim>\<open>GNOSIS\<close>; the
  specification speaks of "a network value outside the supported set", which is
  \<open>OtherNetwork\<close> here, carrying the text \<^verbatim>\<open>str()\<close> gives for that value. For the
  two members \<open>str_Network\<close> is the text Python gives an enum member by default; it only
  appears in messages.\<close>

datatype Network = MAINNET | GNOSIS | OtherNetwork string

fun str_Network :: "Network \<Rightarrow> string" where
  "str_Network MAINNET = ''Network.MAINNET''"
| "str_Network GNOSIS = ''Network.GNOSIS''"
| "str_Network (OtherNetwork s) = s"

text \<open>\<^verbatim>\<open>duneapi.types.Address\<close>: an object with one field, the address as text, which
  its constructor validates and normalises. Two addresses are equal, and hash alike, when
  that field is equal.\<close>

datatype Address = Address (address: string)

subsection \<open>TokenDetails and its two renderings\<close>

text \<open>The class \<^verbatim>\<open>TokenDetails\<close>. Its field \<^verbatim>\<open>address\<close>, the checksummed text, is
  \<open>td_address\<close> here: \<open>address\<close> is the field of \<open>Address\<close>.\<close>

record TokenDetails =
  td_address :: string
  symbol :: string
  decimals :: int

text \<open>\<^verbatim>\<open>as_v1_string\<close>: the two branches in the order of the source, then the
  \<^verbatim>\<open>raise ValueError\<close>. In the Python literal \<^verbatim>\<open>f"\\\\x{address[2:]}"\<close> the four
  backslashes of the source text denote two backslash characters.\<close>

definition as_v1_string :: "TokenDetails \<Rightarrow> Network \<Rightarrow> error + string" where
  "as_v1_string self chain =
     (if chain = MAINNET then
        (let address_bytea = [BACKSLASH, BACKSLASH, CHR ''x''] @ drop 2 (td_address self)
         in Inr (address_bytea @ [TAB] @ symbol self @ [TAB] @ str_int (decimals self)))
      else if chain = GNOSIS then
        Inr (''('' @ [QUOTE] @ symbol self @ [QUOTE] @ '', '' @ str_int (decimals self)
             @ '', decode('' @ [QUOTE] @ drop 2 (td_address self) @ [QUOTE] @ '', ''
             @ [QUOTE] @ ''hex'' @ [QUOTE] @ '')),'')
      else Inl (ValueError (''Incompatible Network '' @ str_Network chain)))"

definition as_v2_string :: "TokenDetails \<Rightarrow> string" where
  "as_v2_string self =
     ''('' @ [QUOTE] @ lower (td_address self) @ [QUOTE] @ '', '' @ [QUOTE] @ symbol self
     @ [QUOTE] @ '', '' @ str_int (decimals self) @ ''),''"

subsection \<open>The collaborators and the events\<close>

record DuneQuery =
  name :: string
  query_id :: nat
  params :: "(string \<times> string) list"

text \<open>A result row of the query service: a dictionary from column names to values.\<close>

type_synonym row = "(string \<times> string) list"

text \<open>What the script prints, one constructor per \<^verbatim>\<open>print\<close> statement, with the values
  the message is formatted from.\<close>

datatype message =
    FetchingV1 Network
  | FetchingV2 Network
  | Found nat nat
  | SomethingWrong Address
  | ProcessingResults
  | ResultsWritten string
  | NoMissingTokens Network

datatype event =
    Refresh DuneQuery
  | Construct Address
  | ContractCall string string
  | Print message
  | WriteFile string string "string list"

text \<open>
  The oracles. None of them is code of this repository, apart from the two methods of
  \<^verbatim>\<open>Network\<close>, whose file \<^verbatim>\<open>src/utils.py\<close> is not among the sources:
  \<^item> \<open>environ\<close>: \<^verbatim>\<open>os.environ\<close>;
  \<^item> \<open>node_url\<close>, \<open>as_dune_v2_repr\<close>: the methods of \<^verbatim>\<open>Network\<close>;
  \<^item> \<open>refresh\<close>: \<^verbatim>\<open>dune.refresh(query).get_rows()\<close>;
  \<^item> \<open>new_Address\<close>: the constructor \<^verbatim>\<open>Address(text)\<close>, which validates;
  \<^item> \<open>toChecksumAddress\<close>: \<^verbatim>\<open>Web3.toChecksumAddress\<close>;
  \<^item> \<open>caller_symbol\<close>, \<open>caller_decimals\<close>: the reads \<^verbatim>\<open>token_contract.caller.symbol()\<close>
    and \<^verbatim>\<open>token_contract.caller.decimals()\<close> of the contract at an address;
  \<^item> \<open>set_iter\<close>: the order in which a \<^verbatim>\<open>for\<close> loop visits a Python \<^verbatim>\<open>set\<close>.
\<close>

record world =
  environ :: "string \<Rightarrow> string option"
  node_url :: "Network \<Rightarrow> string \<Rightarrow> error + string"
  as_dune_v2_repr :: "Network \<Rightarrow> error + string"
  refresh :: "DuneQuery \<Rightarrow> error + row list"
  new_Address :: "string \<Rightarrow> error + Address"
  toChecksumAddress :: "string \<Rightarrow> error + string"
  caller_symbol :: "string \<Rightarrow> error + string"
  caller_decimals :: "string \<Rightarrow> error + int"
  set_iter :: "Address set \<Rightarrow> Address list"

text \<open>Python visits every element of a set once: the property of \<open>set_iter\<close> that the
  theorems about the loop assume, for the set the loop runs over.\<close>

definition visits_each_once :: "world \<Rightarrow> Address set \<Rightarrow> bool" where
  "visits_each_once w S \<longleftrightarrow> distinct (set_iter w S) \<and> set (set_iter w S) = S"

subsection \<open>TokenDetails.\_\_init\_\_\<close>

definition NATIVE_ASSET :: string where
  "NATIVE_ASSET = ''0xEeeeeEeeeEeEeeEeEeEeeEEEeeeeEeeeeeeeEEeE''"

text \<open>The constructor. \<^verbatim>\<open>w3.eth.contract(...)\<close> builds a local handle and sends nothing;
  the two reads follow in the order of the source, and the second is not made when the
  first raises.\<close>

definition TokenDetails_init :: "world \<Rightarrow> Address \<Rightarrow> (error + TokenDetails) \<times> event list" where
  "TokenDetails_init w a =
     (case toChecksumAddress w (address a) of
        Inl e \<Rightarrow> (Inl e, [])
      | Inr self_address \<Rightarrow>
          (case toChecksumAddress w NATIVE_ASSET of
             Inl e \<Rightarrow> (Inl e, [])
           | Inr native \<Rightarrow>
               if self_address = native then
                 (Inr \<lparr>td_address = self_address, symbol = ''ETH'', decimals = 18\<rparr>, [])
               else
                 (case caller_symbol w self_address of
                    Inl e \<Rightarrow> (Inl e, [ContractCall self_address ''symbol''])
                  | Inr symbol_read \<Rightarrow>
                      (case caller_decimals w self_address of
                         Inl e \<Rightarrow>
                           (Inl e, [ContractCall self_address ''symbol'',
                                    ContractCall self_address ''decimals''])
                       | Inr decimals_read \<Rightarrow>
                           (Inr \<lparr>td_address = self_address, symbol = symbol_read,
                                 decimals = decimals_read\<rparr>,
                            [ContractCall self_address ''symbol'',
                             ContractCall self_address ''decimals''])))))"

subsection \<open>MissingTokenResults\<close>

record MissingTokenResults =
  v1 :: "Address list"
  v2 :: "Address list"

definition is_empty :: "MissingTokenResults \<Rightarrow> bool" where
  "is_empty self \<longleftrightarrow> v1 self = [] \<and> v2 self = []"

definition get_all_tokens :: "MissingTokenResults \<Rightarrow> Address set" where
  "get_all_tokens self = set (v1 self @ v2 self)"

subsection \<open>The two sources\<close>

text \<open>\<^verbatim>\<open>[Address(row["token"]) for row in rows]\<close>: the first row without the column, or
  with a text the constructor rejects, raises.\<close>

fun rows_to_addresses :: "world \<Rightarrow> row list \<Rightarrow> error + Address list" where
  "rows_to_addresses w [] = Inr []"
| "rows_to_addresses w (r # rs) =
     (case map_of r ''token'' of
        None \<Rightarrow> Inl (KeyError ''token'')
      | Some t \<Rightarrow>
          (case new_Address w t of
             Inl e \<Rightarrow> Inl e
           | Inr a \<Rightarrow>
               (case rows_to_addresses w rs of
                  Inl e \<Rightarrow> Inl e
                | Inr as \<Rightarrow> Inr (a # as))))"

definition fetch_missing_tokens_legacy ::
    "world \<Rightarrow> Network \<Rightarrow> (error + Address list) \<times> event list" where
  "fetch_missing_tokens_legacy w network =
     (case map_of [(MAINNET, 1317323), (GNOSIS, 1403053)] network of
        None \<Rightarrow> (Inl (KeyError (str_Network network)), [])
      | Some qid \<Rightarrow>
          (let query = \<lparr>name = ''V1: Missing Tokens'', query_id = qid, params = []\<rparr>;
               log = [Print (FetchingV1 network), Refresh query]
           in case refresh w query of
                Inl e \<Rightarrow> (Inl e, log)
              | Inr rows \<Rightarrow> (rows_to_addresses w rows, log)))"

definition fetch_missing_tokens ::
    "world \<Rightarrow> Network \<Rightarrow> (error + Address list) \<times> event list" where
  "fetch_missing_tokens w network =
     (case as_dune_v2_repr w network of
        Inl e \<Rightarrow> (Inl e, [])
      | Inr repr \<Rightarrow>
          (let query = \<lparr>name = ''V2: Missing Tokens'', query_id = 1842715,
                        params = [(''Blockchain'', repr)]\<rparr>;
               log = [Print (FetchingV2 network), Refresh query]
           in case refresh w query of
                Inl e \<Rightarrow> (Inl e, log)
              | Inr rows \<Rightarrow> (rows_to_addresses w rows, log)))"

subsection \<open>write\_results\<close>

text \<open>The file system is a collaborator: a call of \<^verbatim>\<open>write_results\<close> is the event that
  the file \<open>filename\<close> under \<open>path\<close> is (over)written with the rows, each followed by a
  newline, and the line printed after it.\<close>

definition write_results :: "string list \<Rightarrow> string \<Rightarrow> string \<Rightarrow> event list" where
  "write_results results path filename =
     [WriteFile path filename (map (\<lambda>row. row @ [NEWLINE]) results),
      Print (ResultsWritten filename)]"

subsection \<open>run\_missing\_tokens\<close>

text \<open>The \<^verbatim>\<open>for token in tqdm(missing_tokens.get_all_tokens())\<close> loop with its
  \<^verbatim>\<open>try\<close>/\<^verbatim>\<open>except Exception\<close>, over the tokens in the order the set yields them. The
  state is the dictionary \<^verbatim>\<open>token_details\<close>, the list \<^verbatim>\<open>skipped\<close> and the events so far.\<close>

type_synonym loop_state = "(Address \<rightharpoonup> TokenDetails) \<times> Address list \<times> event list"

fun resolve_loop :: "world \<Rightarrow> Address list \<Rightarrow> loop_state \<Rightarrow> loop_state" where
  "resolve_loop w [] st = st"
| "resolve_loop w (token # rest) (token_details, skipped, log) =
     (case TokenDetails_init w token of
        (Inr details, es) \<Rightarrow>
          resolve_loop w rest
            (token_details(token \<mapsto> details), skipped, log @ Construct token # es)
      | (Inl e, es) \<Rightarrow>
          resolve_loop w rest
            (token_details, skipped @ [token],
             log @ Construct token # es @ [Print (SomethingWrong token)]))"

definition resolution :: "world \<Rightarrow> MissingTokenResults \<Rightarrow> loop_state" where
  "resolution w missing_tokens =
     resolve_loop w (set_iter w (get_all_tokens missing_tokens)) (Map.empty, [], [])"

text \<open>The comprehensions \<^verbatim>\<open>[token_details[t].render() for t in ts if t not in skipped]\<close>:
  a token that is not skipped is looked up (\<^verbatim>\<open>KeyError\<close> when the dictionary lacks it) and
  rendered; the first exception ends the comprehension.\<close>

fun comprehension ::
    "(TokenDetails \<Rightarrow> error + string) \<Rightarrow> (Address \<rightharpoonup> TokenDetails) \<Rightarrow> Address list
      \<Rightarrow> Address list \<Rightarrow> error + string list" where
  "comprehension render token_details skipped [] = Inr []"
| "comprehension render token_details skipped (t # ts) =
     (if t \<in> set skipped then comprehension render token_details skipped ts
      else
        (case token_details t of
           None \<Rightarrow> Inl (KeyError (address t))
         | Some details \<Rightarrow>
             (case render details of
                Inl e \<Rightarrow> Inl e
              | Inr line \<Rightarrow>
                  (case comprehension render token_details skipped ts of
                     Inl e \<Rightarrow> Inl e
                   | Inr lines \<Rightarrow> Inr (line # lines)))))"

text \<open>Lines 125 to 146 of the source, the part of \<^verbatim>\<open>run_missing_tokens\<close> that follows the
  construction of \<^verbatim>\<open>missing_tokens\<close>, as a function of that batch.\<close>

definition run_missing_tokens_body ::
    "world \<Rightarrow> Network \<Rightarrow> MissingTokenResults \<Rightarrow> (error + unit) \<times> event list" where
  "run_missing_tokens_body w chain missing_tokens =
     (if \<not> is_empty missing_tokens then
        (case resolution w missing_tokens of
           (token_details, skipped, es) \<Rightarrow>
             (let log = Print (Found (length (v1 missing_tokens)) (length (v2 missing_tokens)))
                        # es @ [Print ProcessingResults]
              in case comprehension (\<lambda>d. as_v1_string d chain) token_details skipped
                        (v1 missing_tokens) of
                   Inl e \<Rightarrow> (Inl e, log)
                 | Inr res_v1 \<Rightarrow>
                     (case comprehension (\<lambda>d. Inr (as_v2_string d)) token_details skipped
                             (v2 missing_tokens) of
                        Inl e \<Rightarrow> (Inl e, log)
                      | Inr res_v2 \<Rightarrow>
                          (Inr (),
                           log @ write_results res_v1 ''./out'' ''missing-tokens-v1.txt''
                               @ write_results res_v2 ''./out'' ''missing-tokens-v2.txt''))))
      else (Inr (), [Print (NoMissingTokens chain)]))"

text \<open>The whole function: the two keys are read from the environment (\<^verbatim>\<open>KeyError\<close> when
  one is missing), the v1 list is the literal \<^verbatim>\<open>[]\<close>, the v2 list is fetched.\<close>

definition run_missing_tokens :: "world \<Rightarrow> Network \<Rightarrow> (error + unit) \<times> event list" where
  "run_missing_tokens w chain =
     (case environ w ''INFURA_KEY'' of
        None \<Rightarrow> (Inl (KeyError ''INFURA_KEY''), [])
      | Some infura_key \<Rightarrow>
          (case node_url w chain infura_key of
             Inl e \<Rightarrow> (Inl e, [])
           | Inr url \<Rightarrow>
               (case environ w ''DUNE_API_KEY'' of
                  None \<Rightarrow> (Inl (KeyError ''DUNE_API_KEY''), [])
                | Some dune_key \<Rightarrow>
                    (case fetch_missing_tokens w chain of
                       (Inl e, es) \<Rightarrow> (Inl e, es)
                     | (Inr fetched, es) \<Rightarrow>
                         (case run_missing_tokens_body w chain \<lparr>v1 = [], v2 = fetched\<rparr> of
                            (r, es') \<Rightarrow> (r, es @ es'))))))"

subsection \<open>Reading a list of events\<close>

fun constructed :: "event list \<Rightarrow> Address list" where
  "constructed [] = []"
| "constructed (Construct a # es) = a # constructed es"
| "constructed (_ # es) = constructed es"

fun contract_calls :: "event list \<Rightarrow> (string \<times> string) list" where
  "contract_calls [] = []"
| "contract_calls (ContractCall a m # es) = (a, m) # contract_calls es"
| "contract_calls (_ # es) = contract_calls es"

fun refreshed :: "event list \<Rightarrow> DuneQuery list" where
  "refreshed [] = []"
| "refreshed (Refresh q # es) = q # refreshed es"
| "refreshed (_ # es) = refreshed es"

fun written :: "event list \<Rightarrow> (string \<times> string list) list" where
  "written [] = []"
| "written (WriteFile path filename rows # es) = (filename, rows) # written es"
| "written (_ # es) = written es"

text \<open>The outcome of resolving one address, without the events.\<close>

definition resolve :: "world \<Rightarrow> Address \<Rightarrow> error + TokenDetails" where
  "resolve w a = fst (TokenDetails_init w a)"

text \<open>The events of one round of the loop, for the token \<open>a\<close>.\<close>

definition step_events :: "world \<Rightarrow> Address \<Rightarrow> event list" where
  "step_events w a =
     Construct a # snd (TokenDetails_init w a)
       @ (if isl (resolve w a) then [Print (SomethingWrong a)] else [])"

subsection \<open>A sample world\<close>

text \<open>A node that knows one ERC20 token, BLUE, and fails on every other contract; a query
  service that answers every query with four rows.\<close>

definition BLUE_TOKEN :: string where
  "BLUE_TOKEN = ''0x96B00208911d72eA9f10c3303fF319427A7884C9''"

definition BROKEN_TOKEN :: string where
  "BROKEN_TOKEN = ''0xE154A435408211ac89757B76c4fbe4dc9ED2EF27''"

definition sample_world :: world where
  "sample_world =
     \<lparr>environ = map_of [(''INFURA_KEY'', ''infura''), (''DUNE_API_KEY'', ''dune'')],
      node_url = (\<lambda>n key. Inr (''https://node.example/'' @ key)),
      as_dune_v2_repr =
        (\<lambda>n. if n = MAINNET then Inr ''ethereum''
             else if n = GNOSIS then Inr ''gnosis''
             else Inl (KeyError (str_Network n))),
      refresh =
        (\<lambda>q. Inr [[(''token'', BROKEN_TOKEN)], [(''token'', NATIVE_ASSET)],
                   [(''token'', BLUE_TOKEN)], [(''token'', BROKEN_TOKEN)]]),
      new_Address = (\<lambda>s. Inr (Address s)),
      toChecksumAddress = Inr,
      caller_symbol =
        (\<lambda>a. if a = BLUE_TOKEN then Inr ''BLUE''
             else Inl (ExternalError ''execution reverted'')),
      caller_decimals = (\<lambda>a. Inr 18),
      set_iter =
        (\<lambda>S. filter (\<lambda>a. a \<in> S)
                [Address NATIVE_ASSET, Address BROKEN_TOKEN, Address BLUE_TOKEN])\<rparr>"

definition sample_batch :: MissingTokenResults where
  "sample_batch =
     \<lparr>v1 = [Address BLUE_TOKEN, Address BROKEN_TOKEN],
      v2 = [Address BROKEN_TOKEN, Address NATIVE_ASSET, Address BLUE_TOKEN,
            Address BROKEN_TOKEN]\<rparr>"

section \<open>Properties\<close>

subsection \<open>The resolution loop in closed form\<close>

lemma resolve_loop_closed:
  "resolve_loop w ws (td, sk, log) =
     ((\<lambda>a. if a \<in> set ws then (case resolve w a of Inr d \<Rightarrow> Some d | Inl e \<Rightarrow> td a) else td a),
      sk @ filter (\<lambda>a. isl (resolve w a)) ws,
      log @ concat (map (step_events w) ws))"
proof (induction ws arbitrary: td sk log)
  case Nil
  show ?case by simp
next
  case (Cons t ts)
  obtain r es where init: "TokenDetails_init w t = (r, es)"
    by (cases "TokenDetails_init w t")
  show ?case
  proof (cases r)
    case (Inl e)
    with init Cons show ?thesis
      by (auto simp: resolve_def step_events_def fun_eq_iff split: sum.splits)
  next
    case (Inr d)
    with init Cons show ?thesis
      by (auto simp: resolve_def step_events_def fun_eq_iff split: sum.splits)
  qed
qed

lemma resolution_closed:
  "resolution w mt =
     ((\<lambda>a. if a \<in> set (set_iter w (get_all_tokens mt))
            then (case resolve w a of Inr d \<Rightarrow> Some d | Inl e \<Rightarrow> None) else None),
      filter (\<lambda>a. isl (resolve w a)) (set_iter w (get_all_tokens mt)),
      concat (map (step_events w) (set_iter w (get_all_tokens mt))))"
  by (simp add: resolution_def resolve_loop_closed)

subsection \<open>Reading the events of the loop\<close>

lemma constructed_append: "constructed (xs @ ys) = constructed xs @ constructed ys"
  by (induction xs rule: constructed.induct) simp_all

lemma refreshed_append: "refreshed (xs @ ys) = refreshed xs @ refreshed ys"
  by (induction xs rule: refreshed.induct) simp_all

lemma written_append: "written (xs @ ys) = written xs @ written ys"
  by (induction xs rule: written.induct) simp_all

lemma init_events:
  "constructed (snd (TokenDetails_init w a)) = []"
  "refreshed (snd (TokenDetails_init w a)) = []"
  "written (snd (TokenDetails_init w a)) = []"
  by (simp_all add: TokenDetails_init_def split: sum.splits)

lemma step_events_read:
  "constructed (step_events w a) = [a]"
  "refreshed (step_events w a) = []"
  "written (step_events w a) = []"
  by (simp_all add: step_events_def init_events constructed_append refreshed_append
        written_append)

lemma loop_events_read:
  "constructed (concat (map (step_events w) ws)) = ws"
  "refreshed (concat (map (step_events w) ws)) = []"
  "written (concat (map (step_events w) ws)) = []"
  by (induction ws)
     (simp_all add: step_events_read constructed_append refreshed_append written_append)

subsection \<open>The comprehensions\<close>

lemma comprehension_lines:
  assumes "\<forall>t\<in>set ts. t \<notin> set sk \<longrightarrow> (\<exists>d line. td t = Some d \<and> render d = Inr line)"
  shows "\<exists>lines. comprehension render td sk ts = Inr lines
           \<and> list_all2 (\<lambda>t line. \<exists>d. td t = Some d \<and> render d = Inr line)
                 (filter (\<lambda>t. t \<notin> set sk) ts) lines"
  using assms
proof (induction ts)
  case Nil
  show ?case by simp
next
  case (Cons t ts)
  then obtain lines where rest: "comprehension render td sk ts = Inr lines"
    and all2: "list_all2 (\<lambda>t line. \<exists>d. td t = Some d \<and> render d = Inr line)
                 (filter (\<lambda>t. t \<notin> set sk) ts) lines"
    by auto
  show ?case
  proof (cases "t \<in> set sk")
    case True
    with rest all2 show ?thesis by simp
  next
    case False
    with Cons.prems obtain d line where "td t = Some d" "render d = Inr line"
      by auto
    with False rest all2 show ?thesis by simp
  qed
qed

lemma comprehension_error:
  assumes "comprehension render td sk ts = Inl e"
      and "\<forall>t\<in>set ts. t \<notin> set sk \<longrightarrow> td t \<noteq> None"
  shows "\<exists>d. render d = Inl e"
  using assms
  by (induction ts) (auto split: if_splits option.splits sum.splits)

lemma comprehension_render_fails:
  assumes "\<forall>d. render d = Inl e"
      and "\<forall>t\<in>set ts. t \<notin> set sk \<longrightarrow> td t \<noteq> None"
      and "\<exists>t\<in>set ts. t \<notin> set sk"
  shows "comprehension render td sk ts = Inl e"
  using assms
  by (induction ts) (auto split: option.splits sum.splits)

subsection \<open>The body of the run\<close>

text \<open>With a set that is visited element by element, the dictionary holds exactly the
  resolved tokens and the list \<^verbatim>\<open>skipped\<close> exactly the failed ones, so a comprehension
  over a part of the work set returns the renderings of the resolved tokens, in order.\<close>

lemma projection_lines:
  assumes vis: "visits_each_once w (get_all_tokens mt)"
      and sub: "set ts \<subseteq> get_all_tokens mt"
      and ok: "\<forall>t\<in>set ts. \<forall>d. resolve w t = Inr d \<longrightarrow> (\<exists>line. render d = Inr line)"
      and res: "resolution w mt = (td, sk, es)"
  shows "\<exists>lines. comprehension render td sk ts = Inr lines
           \<and> list_all2 (\<lambda>t line. \<exists>d. resolve w t = Inr d \<and> render d = Inr line)
                 (filter (\<lambda>t. \<not> isl (resolve w t)) ts) lines"
proof -
  from vis have iter: "set (set_iter w (get_all_tokens mt)) = get_all_tokens mt"
    by (simp add: visits_each_once_def)
  from res have td: "td = (\<lambda>a. if a \<in> get_all_tokens mt
            then (case resolve w a of Inr d \<Rightarrow> Some d | Inl e \<Rightarrow> None) else None)"
    and sk: "set sk = {a \<in> get_all_tokens mt. isl (resolve w a)}"
    by (auto simp: resolution_closed iter)
  have look: "td t = Some d \<longleftrightarrow> resolve w t = Inr d" if "t \<in> set ts" for t d
    using that sub by (auto simp: td split: sum.splits)
  have skip: "t \<notin> set sk \<longleftrightarrow> \<not> isl (resolve w t)" if "t \<in> set ts" for t
    using that sub by (auto simp: sk)
  have "\<forall>t\<in>set ts. t \<notin> set sk \<longrightarrow> (\<exists>d line. td t = Some d \<and> render d = Inr line)"
  proof (intro ballI impI)
    fix t assume t: "t \<in> set ts" and "t \<notin> set sk"
    then have "\<not> isl (resolve w t)" by (simp add: skip)
    then obtain d where d: "resolve w t = Inr d" by (cases "resolve w t") auto
    with ok t look [OF t] show "\<exists>d line. td t = Some d \<and> render d = Inr line"
      by blast
  qed
  from comprehension_lines [OF this] obtain lines
    where c: "comprehension render td sk ts = Inr lines"
      and l: "list_all2 (\<lambda>t line. \<exists>d. td t = Some d \<and> render d = Inr line)
                 (filter (\<lambda>t. t \<notin> set sk) ts) lines"
    by blast
  have f: "filter (\<lambda>t. t \<notin> set sk) ts = filter (\<lambda>t. \<not> isl (resolve w t)) ts"
    by (rule filter_cong) (simp_all add: skip)
  have "list_all2 (\<lambda>t line. \<exists>d. resolve w t = Inr d \<and> render d = Inr line)
          (filter (\<lambda>t. t \<notin> set sk) ts) lines"
    using l
  proof (rule list.rel_mono_strong)
    fix t line
    assume "t \<in> set (filter (\<lambda>t. t \<notin> set sk) ts)" and "line \<in> set lines"
      and "\<exists>d. td t = Some d \<and> render d = Inr line"
    then show "\<exists>d. resolve w t = Inr d \<and> render d = Inr line"
      using look by auto
  qed
  with c f show ?thesis by auto
qed

lemma body_trace:
  assumes vis: "visits_each_once w (get_all_tokens mt)"
      and net: "chain = MAINNET \<or> chain = GNOSIS \<or> v1 mt = []"
      and ne: "\<not> is_empty mt"
  shows "\<exists>res_v1 res_v2.
     run_missing_tokens_body w chain mt =
       (Inr (), Print (Found (length (v1 mt)) (length (v2 mt)))
                # concat (map (step_events w) (set_iter w (get_all_tokens mt)))
                @ [Print ProcessingResults]
                @ write_results res_v1 ''./out'' ''missing-tokens-v1.txt''
                @ write_results res_v2 ''./out'' ''missing-tokens-v2.txt'')
   \<and> list_all2 (\<lambda>t line. \<exists>d. resolve w t = Inr d \<and> as_v1_string d chain = Inr line)
        (filter (\<lambda>t. \<not> isl (resolve w t)) (v1 mt)) res_v1
   \<and> list_all2 (\<lambda>t line. \<exists>d. resolve w t = Inr d \<and> line = as_v2_string d)
        (filter (\<lambda>t. \<not> isl (resolve w t)) (v2 mt)) res_v2"
proof -
  obtain td sk es where res: "resolution w mt = (td, sk, es)"
    by (cases "resolution w mt")
  then have es: "es = concat (map (step_events w) (set_iter w (get_all_tokens mt)))"
    by (simp add: resolution_closed)
  have ok1: "\<forall>t\<in>set (v1 mt). \<forall>d. resolve w t = Inr d
                \<longrightarrow> (\<exists>line. (\<lambda>d. as_v1_string d chain) d = Inr line)"
    using net by (auto simp: as_v1_string_def)
  have ok2: "\<forall>t\<in>set (v2 mt). \<forall>d. resolve w t = Inr d
                \<longrightarrow> (\<exists>line. (\<lambda>d. Inr (as_v2_string d) :: error + string) d = Inr line)"
    by simp
  have "set (v1 mt) \<subseteq> get_all_tokens mt"
    by (simp add: get_all_tokens_def)
  from projection_lines [where render = "\<lambda>d. as_v1_string d chain", OF vis this ok1 res] obtain res_v1
    where c1: "comprehension (\<lambda>d. as_v1_string d chain) td sk (v1 mt) = Inr res_v1"
      and l1: "list_all2 (\<lambda>t line. \<exists>d. resolve w t = Inr d \<and> as_v1_string d chain = Inr line)
                 (filter (\<lambda>t. \<not> isl (resolve w t)) (v1 mt)) res_v1"
    by blast
  have "set (v2 mt) \<subseteq> get_all_tokens mt"
    by (simp add: get_all_tokens_def)
  from projection_lines [where render = "\<lambda>d. Inr (as_v2_string d)", OF vis this ok2 res] obtain res_v2
    where c2: "comprehension (\<lambda>d. Inr (as_v2_string d)) td sk (v2 mt) = Inr res_v2"
      and l2: "list_all2 (\<lambda>t line. \<exists>d. resolve w t = Inr d \<and> Inr (as_v2_string d) = (Inr line :: error + string))
                 (filter (\<lambda>t. \<not> isl (resolve w t)) (v2 mt)) res_v2"
    by blast
  from l2 have l2': "list_all2 (\<lambda>t line. \<exists>d. resolve w t = Inr d \<and> line = as_v2_string d)
                 (filter (\<lambda>t. \<not> isl (resolve w t)) (v2 mt)) res_v2"
    by (rule list_all2_mono) auto
  have "run_missing_tokens_body w chain mt =
       (Inr (), Print (Found (length (v1 mt)) (length (v2 mt)))
                # concat (map (step_events w) (set_iter w (get_all_tokens mt)))
                @ [Print ProcessingResults]
                @ write_results res_v1 ''./out'' ''missing-tokens-v1.txt''
                @ write_results res_v2 ''./out'' ''missing-tokens-v2.txt'')"
    using ne res c1 c2 es by (simp add: run_missing_tokens_body_def)
  with l1 l2' show ?thesis by blast
qed

lemma body_constructed:
  "constructed (snd (run_missing_tokens_body w chain mt)) =
     (if is_empty mt then [] else set_iter w (get_all_tokens mt))"
  by (simp add: run_missing_tokens_body_def resolution_closed write_results_def Let_def
        constructed_append loop_events_read split: sum.splits)

lemma body_refreshed: "refreshed (snd (run_missing_tokens_body w chain mt)) = []"
  by (simp add: run_missing_tokens_body_def resolution_closed write_results_def Let_def
        refreshed_append loop_events_read split: sum.splits)

lemma empty_work_set: "is_empty mt \<Longrightarrow> get_all_tokens mt = {}"
  by (simp add: is_empty_def get_all_tokens_def)

lemma short_circuit_body:
  "(is_empty mt \<longrightarrow>
      run_missing_tokens_body w chain mt = (Inr (), [Print (NoMissingTokens chain)])
      \<and> written (snd (run_missing_tokens_body w chain mt)) = []
      \<and> constructed (snd (run_missing_tokens_body w chain mt)) = []
      \<and> contract_calls (snd (run_missing_tokens_body w chain mt)) = [])
   \<and> (\<not> is_empty mt \<and> visits_each_once w (get_all_tokens mt)
        \<and> (chain = MAINNET \<or> chain = GNOSIS \<or> v1 mt = []) \<longrightarrow>
      fst (run_missing_tokens_body w chain mt) = Inr ()
      \<and> set (constructed (snd (run_missing_tokens_body w chain mt))) = get_all_tokens mt
      \<and> map fst (written (snd (run_missing_tokens_body w chain mt)))
          = [''missing-tokens-v1.txt'', ''missing-tokens-v2.txt'']
      \<and> Print (NoMissingTokens chain) \<notin> set (snd (run_missing_tokens_body w chain mt)))"
proof (intro conjI impI)
  assume "is_empty mt"
  then show "run_missing_tokens_body w chain mt = (Inr (), [Print (NoMissingTokens chain)])"
    by (simp add: run_missing_tokens_body_def)
  then show "written (snd (run_missing_tokens_body w chain mt)) = []"
    and "constructed (snd (run_missing_tokens_body w chain mt)) = []"
    and "contract_calls (snd (run_missing_tokens_body w chain mt)) = []"
    by simp_all
next
  assume a: "\<not> is_empty mt \<and> visits_each_once w (get_all_tokens mt)
        \<and> (chain = MAINNET \<or> chain = GNOSIS \<or> v1 mt = [])"
  then have vis: "visits_each_once w (get_all_tokens mt)"
    and net: "chain = MAINNET \<or> chain = GNOSIS \<or> v1 mt = []" and ne: "\<not> is_empty mt"
    by simp_all
  from body_trace [OF vis net ne] obtain res_v1 res_v2 where
      run: "run_missing_tokens_body w chain mt =
       (Inr (), Print (Found (length (v1 mt)) (length (v2 mt)))
                # concat (map (step_events w) (set_iter w (get_all_tokens mt)))
                @ [Print ProcessingResults]
                @ write_results res_v1 ''./out'' ''missing-tokens-v1.txt''
                @ write_results res_v2 ''./out'' ''missing-tokens-v2.txt'')"
    by blast
  from run show "fst (run_missing_tokens_body w chain mt) = Inr ()"
    by simp
  from vis ne show "set (constructed (snd (run_missing_tokens_body w chain mt)))
                      = get_all_tokens mt"
    by (simp add: body_constructed visits_each_once_def)
  from run show "map fst (written (snd (run_missing_tokens_body w chain mt)))
          = [''missing-tokens-v1.txt'', ''missing-tokens-v2.txt'']"
    by (simp add: written_append loop_events_read write_results_def)
  have "Print (NoMissingTokens chain) \<notin> set (step_events w a)" for a
    by (simp add: step_events_def TokenDetails_init_def split: sum.splits)
  with run show "Print (NoMissingTokens chain) \<notin> set (snd (run_missing_tokens_body w chain mt))"
    by (simp add: write_results_def)
qed

text \<open>The boundary of the two results above: on a network that is neither \<^verbatim>\<open>MAINNET\<close>
  nor \<^verbatim>\<open>GNOSIS\<close>, a resolved token in the v1 list makes the v1 comprehension raise, and
  nothing is written. No call of \<^verbatim>\<open>run_missing_tokens\<close> reaches this, its v1 list being
  the literal \<^verbatim>\<open>[]\<close>.\<close>

lemma unsupported_network_aborts:
  assumes vis: "visits_each_once w (get_all_tokens mt)"
      and net: "chain \<noteq> MAINNET" "chain \<noteq> GNOSIS"
      and tok: "t \<in> set (v1 mt)" "\<not> isl (resolve w t)"
  shows "fst (run_missing_tokens_body w chain mt)
           = Inl (ValueError (''Incompatible Network '' @ str_Network chain))
         \<and> written (snd (run_missing_tokens_body w chain mt)) = []"
proof -
  from vis have iter: "set (set_iter w (get_all_tokens mt)) = get_all_tokens mt"
    by (simp add: visits_each_once_def)
  obtain td sk es where res: "resolution w mt = (td, sk, es)"
    by (cases "resolution w mt")
  then have td: "td = (\<lambda>a. if a \<in> get_all_tokens mt
            then (case resolve w a of Inr d \<Rightarrow> Some d | Inl e \<Rightarrow> None) else None)"
    and sk: "set sk = {a \<in> get_all_tokens mt. isl (resolve w a)}"
    and es: "written es = []"
    by (auto simp: resolution_closed iter loop_events_read)
  have sub: "set (v1 mt) \<subseteq> get_all_tokens mt"
    by (simp add: get_all_tokens_def)
  have "\<forall>t\<in>set (v1 mt). t \<notin> set sk \<longrightarrow> td t \<noteq> None"
    using sub by (auto simp: td sk split: sum.splits)
  moreover have "\<exists>t\<in>set (v1 mt). t \<notin> set sk"
    using tok by (auto simp: sk)
  moreover have "\<forall>d. as_v1_string d chain
                   = Inl (ValueError (''Incompatible Network '' @ str_Network chain))"
    using net by (simp add: as_v1_string_def)
  ultimately have "comprehension (\<lambda>d. as_v1_string d chain) td sk (v1 mt)
                     = Inl (ValueError (''Incompatible Network '' @ str_Network chain))"
    by (rule comprehension_render_fails [rotated])
  moreover from tok have "\<not> is_empty mt"
    by (auto simp: is_empty_def)
  ultimately show ?thesis
    using res es by (simp add: run_missing_tokens_body_def written_append)
qed

subsection \<open>The whole run\<close>

lemma fetch_events:
  "snd (fetch_missing_tokens w chain) =
     (case as_dune_v2_repr w chain of
        Inl e \<Rightarrow> []
      | Inr repr \<Rightarrow>
          [Print (FetchingV2 chain),
           Refresh \<lparr>name = ''V2: Missing Tokens'', query_id = 1842715,
                    params = [(''Blockchain'', repr)]\<rparr>])"
  by (simp add: fetch_missing_tokens_def Let_def split: sum.splits)

lemma run_unfold:
  assumes "environ w ''INFURA_KEY'' = Some k" and "node_url w chain k = Inr url"
      and "environ w ''DUNE_API_KEY'' = Some dk"
      and "fetch_missing_tokens w chain = (Inr fetched, es)"
  shows "run_missing_tokens w chain =
           (fst (run_missing_tokens_body w chain \<lparr>v1 = [], v2 = fetched\<rparr>),
            es @ snd (run_missing_tokens_body w chain \<lparr>v1 = [], v2 = fetched\<rparr>))"
  using assms by (simp add: run_missing_tokens_def split: prod.splits)

lemma run_refreshed:
  "refreshed (snd (run_missing_tokens w chain)) = []
   \<or> refreshed (snd (run_missing_tokens w chain)) = refreshed (snd (fetch_missing_tokens w chain))"
  by (simp add: run_missing_tokens_def case_prod_beta refreshed_append body_refreshed
        split: option.splits sum.splits)

lemma run_short_circuit_or_both_files:
  assumes "environ w ''INFURA_KEY'' = Some k" and "node_url w chain k = Inr url"
      and "environ w ''DUNE_API_KEY'' = Some dk"
      and "fetch_missing_tokens w chain = (Inr fetched, es)"
  shows "(fetched = [] \<longrightarrow>
            run_missing_tokens w chain = (Inr (), es @ [Print (NoMissingTokens chain)])
            \<and> written (snd (run_missing_tokens w chain)) = []
            \<and> constructed (snd (run_missing_tokens w chain)) = [])
         \<and> (fetched \<noteq> [] \<and> visits_each_once w (set fetched) \<longrightarrow>
            fst (run_missing_tokens w chain) = Inr ()
            \<and> set (constructed (snd (run_missing_tokens w chain))) = set fetched
            \<and> map fst (written (snd (run_missing_tokens w chain)))
                = [''missing-tokens-v1.txt'', ''missing-tokens-v2.txt''])"
proof -
  let ?mt = "\<lparr>v1 = [], v2 = fetched\<rparr>"
  have run: "run_missing_tokens w chain =
           (fst (run_missing_tokens_body w chain ?mt),
            es @ snd (run_missing_tokens_body w chain ?mt))"
    using assms by (rule run_unfold)
  from assms(4) have "es = snd (fetch_missing_tokens w chain)" by simp
  then have es: "written es = []" "constructed es = []"
    by (simp_all add: fetch_events split: sum.splits)
  have work: "get_all_tokens ?mt = set fetched"
    by (simp add: get_all_tokens_def)
  have emp: "is_empty ?mt \<longleftrightarrow> fetched = []"
    by (simp add: is_empty_def)
  have net: "chain = MAINNET \<or> chain = GNOSIS \<or> v1 ?mt = []"
    by simp
  from short_circuit_body [of ?mt w chain] es net show ?thesis
    unfolding run work emp
    by (simp add: written_append constructed_append)
qed

subsection \<open>The sample world\<close>

lemma sample_visits: "visits_each_once sample_world (get_all_tokens sample_batch)"
  by (auto simp: visits_each_once_def sample_world_def sample_batch_def get_all_tokens_def
        BLUE_TOKEN_def BROKEN_TOKEN_def NATIVE_ASSET_def)

lemma sample_fetch:
  "fetch_missing_tokens sample_world MAINNET =
     (Inr [Address BROKEN_TOKEN, Address NATIVE_ASSET, Address BLUE_TOKEN, Address BROKEN_TOKEN],
      [Print (FetchingV2 MAINNET),
       Refresh \<lparr>name = ''V2: Missing Tokens'', query_id = 1842715,
                params = [(''Blockchain'', ''ethereum'')]\<rparr>])"
  by (simp add: fetch_missing_tokens_def sample_world_def)

lemma sample_distinct:
  "BLUE_TOKEN \<noteq> BROKEN_TOKEN" "BLUE_TOKEN \<noteq> NATIVE_ASSET" "BROKEN_TOKEN \<noteq> NATIVE_ASSET"
  "BROKEN_TOKEN \<noteq> BLUE_TOKEN" "NATIVE_ASSET \<noteq> BLUE_TOKEN" "NATIVE_ASSET \<noteq> BROKEN_TOKEN"
  by (simp_all add: BLUE_TOKEN_def BROKEN_TOKEN_def NATIVE_ASSET_def)

lemma sample_resolve:
  "resolve sample_world (Address BLUE_TOKEN)
     = Inr \<lparr>td_address = BLUE_TOKEN, symbol = ''BLUE'', decimals = 18\<rparr>"
  "resolve sample_world (Address NATIVE_ASSET)
     = Inr \<lparr>td_address = NATIVE_ASSET, symbol = ''ETH'', decimals = 18\<rparr>"
  "resolve sample_world (Address BROKEN_TOKEN) = Inl (ExternalError ''execution reverted'')"
  by (simp_all add: resolve_def TokenDetails_init_def sample_world_def
        BLUE_TOKEN_def BROKEN_TOKEN_def NATIVE_ASSET_def)

lemma sample_iter:
  "set_iter sample_world (get_all_tokens sample_batch)
     = [Address NATIVE_ASSET, Address BROKEN_TOKEN, Address BLUE_TOKEN]"
  by (simp add: sample_world_def sample_batch_def get_all_tokens_def
        BLUE_TOKEN_def BROKEN_TOKEN_def NATIVE_ASSET_def)

text \<open>The files of the sample run: the broken token is in neither, the other tokens are
  in the order of their list.\<close>

lemma sample_written:
  "written (snd (run_missing_tokens_body sample_world MAINNET sample_batch)) =
     [(''missing-tokens-v1.txt'',
       [[BACKSLASH, BACKSLASH] @ ''x96B00208911d72eA9f10c3303fF319427A7884C9'' @ [TAB]
        @ ''BLUE'' @ [TAB] @ ''18'' @ [NEWLINE]]),
      (''missing-tokens-v2.txt'',
       [[CHR ''('', QUOTE] @ ''0xeeeeeeeeeeeeeeeeeeeeeeeeeeeeeeeeeeeeeeee''
        @ [QUOTE, CHR '','', CHR '' '', QUOTE] @ ''ETH'' @ [QUOTE] @ '', 18),'' @ [NEWLINE],
        [CHR ''('', QUOTE] @ ''0x96b00208911d72ea9f10c3303ff319427a7884c9''
        @ [QUOTE, CHR '','', CHR '' '', QUOTE] @ ''BLUE'' @ [QUOTE] @ '', 18),'' @ [NEWLINE]])]"
proof -
  obtain td sk es where res: "resolution sample_world sample_batch = (td, sk, es)"
    by (cases "resolution sample_world sample_batch")
  then have td: "td (Address BLUE_TOKEN)
                   = Some \<lparr>td_address = BLUE_TOKEN, symbol = ''BLUE'', decimals = 18\<rparr>"
      "td (Address NATIVE_ASSET)
         = Some \<lparr>td_address = NATIVE_ASSET, symbol = ''ETH'', decimals = 18\<rparr>"
    and sk: "sk = [Address BROKEN_TOKEN]"
    and es: "written es = []"
    by (auto simp: resolution_closed sample_iter sample_resolve written_append step_events_read)
  have c1: "comprehension (\<lambda>d. as_v1_string d MAINNET) td sk (v1 sample_batch) = Inr [line]"
    if "as_v1_string \<lparr>td_address = BLUE_TOKEN, symbol = ''BLUE'', decimals = 18\<rparr> MAINNET
          = Inr line" for line
    using that by (simp add: sample_batch_def td sk sample_distinct)
  have c2: "comprehension (\<lambda>d. Inr (as_v2_string d)) td sk (v2 sample_batch)
     = Inr [as_v2_string \<lparr>td_address = NATIVE_ASSET, symbol = ''ETH'', decimals = 18\<rparr>,
            as_v2_string \<lparr>td_address = BLUE_TOKEN, symbol = ''BLUE'', decimals = 18\<rparr>]"
    by (simp add: sample_batch_def td sk sample_distinct)
  have l1: "as_v1_string \<lparr>td_address = BLUE_TOKEN, symbol = ''BLUE'', decimals = 18\<rparr> MAINNET
    = Inr ([BACKSLASH, BACKSLASH] @ ''x96B00208911d72eA9f10c3303fF319427A7884C9'' @ [TAB]
        @ ''BLUE'' @ [TAB] @ ''18'')"
    by (simp add: as_v1_string_def str_int_def digit_char_def BLUE_TOKEN_def)
  have l2: "as_v2_string \<lparr>td_address = NATIVE_ASSET, symbol = ''ETH'', decimals = 18\<rparr>
    = [CHR ''('', QUOTE] @ ''0xeeeeeeeeeeeeeeeeeeeeeeeeeeeeeeeeeeeeeeee''
        @ [QUOTE, CHR '','', CHR '' '', QUOTE] @ ''ETH'' @ [QUOTE] @ '', 18),''"
    "as_v2_string \<lparr>td_address = BLUE_TOKEN, symbol = ''BLUE'', decimals = 18\<rparr>
    = [CHR ''('', QUOTE] @ ''0x96b00208911d72ea9f10c3303ff319427a7884c9''
        @ [QUOTE, CHR '','', CHR '' '', QUOTE] @ ''BLUE'' @ [QUOTE] @ '', 18),''"
    by (simp_all add: as_v2_string_def lower_def lower_char_def str_int_def digit_char_def
           BLUE_TOKEN_def NATIVE_ASSET_def)
  have "\<not> is_empty sample_batch"
    by (simp add: is_empty_def sample_batch_def)
  then show ?thesis
    by (simp add: run_missing_tokens_body_def res c1 [OF l1] c2 l2 es
          written_append write_results_def)
qed

subsection \<open>Resolution\<close>

text \<open>
  Claim C1. For every batch and every behaviour of the resolver, on a network for which
  the v1 rendering is defined (\<^verbatim>\<open>MAINNET\<close>, \<^verbatim>\<open>GNOSIS\<close>) or with an empty v1 list (as in
  every call of \<^verbatim>\<open>run_missing_tokens\<close>), the run does not abort: the loop constructs a
  \<^verbatim>\<open>TokenDetails\<close> for every address of the work set, the addresses whose construction
  raised are exactly the elements of \<^verbatim>\<open>skipped\<close>, the run returns normally, and the rows
  written for v1 and for v2 are the renderings of the records of the addresses of that
  list whose resolution did not fail, in the order of the list.
\<close>

theorem partial_failure_tolerance:
  assumes vis: "visits_each_once w (get_all_tokens mt)"
      and net: "chain = MAINNET \<or> chain = GNOSIS \<or> v1 mt = []"
  shows "\<exists>token_details skipped es res_v1 res_v2.
      resolution w mt = (token_details, skipped, es)
    \<and> set skipped = {t \<in> get_all_tokens mt. isl (resolve w t)}
    \<and> set (constructed es) = get_all_tokens mt
    \<and> fst (run_missing_tokens_body w chain mt) = Inr ()
    \<and> written (snd (run_missing_tokens_body w chain mt)) =
        (if is_empty mt then []
         else [(''missing-tokens-v1.txt'', map (\<lambda>row. row @ [NEWLINE]) res_v1),
               (''missing-tokens-v2.txt'', map (\<lambda>row. row @ [NEWLINE]) res_v2)])
    \<and> list_all2 (\<lambda>t line. \<exists>d. resolve w t = Inr d \<and> as_v1_string d chain = Inr line)
         (filter (\<lambda>t. \<not> isl (resolve w t)) (v1 mt)) res_v1
    \<and> list_all2 (\<lambda>t line. \<exists>d. resolve w t = Inr d \<and> line = as_v2_string d)
         (filter (\<lambda>t. \<not> isl (resolve w t)) (v2 mt)) res_v2"
proof -
  from vis have iter: "set (set_iter w (get_all_tokens mt)) = get_all_tokens mt"
    by (simp add: visits_each_once_def)
  obtain td sk es where res: "resolution w mt = (td, sk, es)"
    by (cases "resolution w mt")
  then have sk: "set sk = {t \<in> get_all_tokens mt. isl (resolve w t)}"
    and es: "set (constructed es) = get_all_tokens mt"
    by (auto simp: resolution_closed iter loop_events_read)
  show ?thesis
  proof (cases "is_empty mt")
    case True
    then have "fst (run_missing_tokens_body w chain mt) = Inr ()"
      and "written (snd (run_missing_tokens_body w chain mt)) = []"
      and "v1 mt = []" and "v2 mt = []"
      by (simp_all add: run_missing_tokens_body_def is_empty_def)
    with True res sk es show ?thesis by simp
  next
    case False
    from body_trace [OF vis net False] obtain res_v1 res_v2 where
      run: "run_missing_tokens_body w chain mt =
       (Inr (), Print (Found (length (v1 mt)) (length (v2 mt)))
                # concat (map (step_events w) (set_iter w (get_all_tokens mt)))
                @ [Print ProcessingResults]
                @ write_results res_v1 ''./out'' ''missing-tokens-v1.txt''
                @ write_results res_v2 ''./out'' ''missing-tokens-v2.txt'')"
      and l1: "list_all2 (\<lambda>t line. \<exists>d. resolve w t = Inr d \<and> as_v1_string d chain = Inr line)
        (filter (\<lambda>t. \<not> isl (resolve w t)) (v1 mt)) res_v1"
      and l2: "list_all2 (\<lambda>t line. \<exists>d. resolve w t = Inr d \<and> line = as_v2_string d)
        (filter (\<lambda>t. \<not> isl (resolve w t)) (v2 mt)) res_v2"
      by blast
    from run have "fst (run_missing_tokens_body w chain mt) = Inr ()"
      and "written (snd (run_missing_tokens_body w chain mt)) =
             [(''missing-tokens-v1.txt'', map (\<lambda>row. row @ [NEWLINE]) res_v1),
              (''missing-tokens-v2.txt'', map (\<lambda>row. row @ [NEWLINE]) res_v2)]"
      by (simp_all add: written_append loop_events_read write_results_def)
    with False res sk es l1 l2 show ?thesis by auto
  qed
qed

theorem partial_failure_tolerance_witness:
  "visits_each_once sample_world (get_all_tokens sample_batch)
   \<and> isl (resolve sample_world (Address BROKEN_TOKEN))
   \<and> fst (run_missing_tokens_body sample_world MAINNET sample_batch) = Inr ()
   \<and> map (length \<circ> snd) (written (snd (run_missing_tokens_body sample_world MAINNET sample_batch)))
       = [1, 2]"
proof -
  have "isl (resolve sample_world (Address BROKEN_TOKEN))"
    by (simp add: sample_resolve)
  moreover
  have "map (length \<circ> snd)
          (written (snd (run_missing_tokens_body sample_world MAINNET sample_batch))) = [1, 2]"
    by (simp add: sample_written)
  ultimately show ?thesis
    using partial_failure_tolerance [OF sample_visits, of MAINNET] sample_visits
    by auto
qed

text \<open>
  Claim C2. In a run over any batch, the addresses for which \<^verbatim>\<open>TokenDetails\<close> is
  constructed are pairwise distinct and are the addresses of the work set: an address is
  resolved once, however often it occurs in v1 and v2, and the number of constructions is
  the cardinality of the work set. Addresses are compared as \<^verbatim>\<open>Address\<close> objects, whose
  text is normalised by their constructor.
\<close>

theorem resolver_called_once_per_address:
  assumes "visits_each_once w (get_all_tokens mt)"
  shows "distinct (constructed (snd (run_missing_tokens_body w chain mt)))
         \<and> set (constructed (snd (run_missing_tokens_body w chain mt))) = get_all_tokens mt
         \<and> length (constructed (snd (run_missing_tokens_body w chain mt)))
             = card (get_all_tokens mt)"
proof (cases "is_empty mt")
  case True
  then show ?thesis
    by (simp add: body_constructed empty_work_set)
next
  case False
  from assms have "distinct (set_iter w (get_all_tokens mt))"
    and "set (set_iter w (get_all_tokens mt)) = get_all_tokens mt"
    by (simp_all add: visits_each_once_def)
  with False distinct_card [of "set_iter w (get_all_tokens mt)"] show ?thesis
    by (simp add: body_constructed)
qed

theorem resolver_called_once_per_address_witness:
  "visits_each_once sample_world (get_all_tokens sample_batch)
   \<and> length (constructed (snd (run_missing_tokens_body sample_world MAINNET sample_batch))) = 3"
proof -
  have c: "card (get_all_tokens sample_batch) = 3"
    by (simp add: sample_batch_def get_all_tokens_def card_insert_if
        BLUE_TOKEN_def BROKEN_TOKEN_def NATIVE_ASSET_def)
  from resolver_called_once_per_address [OF sample_visits, of MAINNET] c sample_visits
  show ?thesis by simp
qed

subsection \<open>The sources\<close>

text \<open>
  Claim C3, as amended. On every run at most one query is sent, and it is the v2 query
  (id 1842715, with the network as parameter); the v1 source is not queried. When the
  environment and the v2 query succeed, the batch is the empty v1 list with the fetched
  v2 list, the query precedes every event of the resolution, and the work set is the set
  of the fetched v2 addresses.
\<close>

theorem only_v2_source_queried:
  "(\<forall>q\<in>set (refreshed (snd (run_missing_tokens w chain))).
       name q = ''V2: Missing Tokens'' \<and> query_id q = 1842715)
   \<and> length (refreshed (snd (run_missing_tokens w chain))) \<le> 1
   \<and> (\<forall>k url dk fetched es.
        environ w ''INFURA_KEY'' = Some k \<and> node_url w chain k = Inr url
        \<and> environ w ''DUNE_API_KEY'' = Some dk
        \<and> fetch_missing_tokens w chain = (Inr fetched, es) \<longrightarrow>
          run_missing_tokens w chain =
            (fst (run_missing_tokens_body w chain \<lparr>v1 = [], v2 = fetched\<rparr>),
             es @ snd (run_missing_tokens_body w chain \<lparr>v1 = [], v2 = fetched\<rparr>))
          \<and> (\<exists>repr. refreshed es =
                [\<lparr>name = ''V2: Missing Tokens'', query_id = 1842715,
                  params = [(''Blockchain'', repr)]\<rparr>])
          \<and> refreshed (snd (run_missing_tokens_body w chain \<lparr>v1 = [], v2 = fetched\<rparr>)) = []
          \<and> get_all_tokens \<lparr>v1 = [], v2 = fetched\<rparr> = set fetched)"
proof (intro conjI allI impI)
  have f: "refreshed (snd (fetch_missing_tokens w chain)) = []
           \<or> (\<exists>repr. refreshed (snd (fetch_missing_tokens w chain)) =
                [\<lparr>name = ''V2: Missing Tokens'', query_id = 1842715,
                  params = [(''Blockchain'', repr)]\<rparr>])"
    by (simp add: fetch_events split: sum.splits)
  with run_refreshed [of w chain]
  show "\<forall>q\<in>set (refreshed (snd (run_missing_tokens w chain))).
          name q = ''V2: Missing Tokens'' \<and> query_id q = 1842715"
    by auto
  from f run_refreshed [of w chain]
  show "length (refreshed (snd (run_missing_tokens w chain))) \<le> 1"
    by auto
next
  fix k url dk fetched es
  assume a: "environ w ''INFURA_KEY'' = Some k \<and> node_url w chain k = Inr url
        \<and> environ w ''DUNE_API_KEY'' = Some dk
        \<and> fetch_missing_tokens w chain = (Inr fetched, es)"
  then show "run_missing_tokens w chain =
            (fst (run_missing_tokens_body w chain \<lparr>v1 = [], v2 = fetched\<rparr>),
             es @ snd (run_missing_tokens_body w chain \<lparr>v1 = [], v2 = fetched\<rparr>))"
    by (simp add: run_unfold)
  from a have es: "es = snd (fetch_missing_tokens w chain)"
    and ok: "fst (fetch_missing_tokens w chain) = Inr fetched" by simp_all
  from ok obtain repr where "as_dune_v2_repr w chain = Inr repr"
    by (cases "as_dune_v2_repr w chain") (simp_all add: fetch_missing_tokens_def)
  then show "\<exists>repr. refreshed es =
                [\<lparr>name = ''V2: Missing Tokens'', query_id = 1842715,
                  params = [(''Blockchain'', repr)]\<rparr>]"
    by (simp add: es fetch_events)
  show "refreshed (snd (run_missing_tokens_body w chain \<lparr>v1 = [], v2 = fetched\<rparr>)) = []"
    by (rule body_refreshed)
  show "get_all_tokens \<lparr>v1 = [], v2 = fetched\<rparr> = set fetched"
    by (simp add: get_all_tokens_def)
qed

theorem only_v2_source_queried_witness:
  "environ sample_world ''INFURA_KEY'' = Some ''infura''
   \<and> node_url sample_world MAINNET ''infura'' = Inr ''https://node.example/infura''
   \<and> environ sample_world ''DUNE_API_KEY'' = Some ''dune''
   \<and> get_all_tokens
        \<lparr>v1 = [],
         v2 = [Address BROKEN_TOKEN, Address NATIVE_ASSET, Address BLUE_TOKEN,
               Address BROKEN_TOKEN]\<rparr>
       = {Address BROKEN_TOKEN, Address NATIVE_ASSET, Address BLUE_TOKEN}
   \<and> length (refreshed (snd (run_missing_tokens sample_world MAINNET))) \<le> 1"
proof -
  have h: "environ sample_world ''INFURA_KEY'' = Some ''infura''"
    "node_url sample_world MAINNET ''infura'' = Inr ''https://node.example/infura''"
    "environ sample_world ''DUNE_API_KEY'' = Some ''dune''"
    by (simp_all add: sample_world_def)
  from only_v2_source_queried [of sample_world MAINNET] h sample_fetch
  have "get_all_tokens
        \<lparr>v1 = [],
         v2 = [Address BROKEN_TOKEN, Address NATIVE_ASSET, Address BLUE_TOKEN,
               Address BROKEN_TOKEN]\<rparr>
       = set [Address BROKEN_TOKEN, Address NATIVE_ASSET, Address BLUE_TOKEN,
               Address BROKEN_TOKEN]"
    and "length (refreshed (snd (run_missing_tokens sample_world MAINNET))) \<le> 1"
    by blast+
  with h show ?thesis by auto
qed

text \<open>The claim as it was stated has the v1 source queried on every run. In the sample
  world the v1 source would send the query 1317323; the run sends the v2 query alone.\<close>

theorem both_sources_queried_counterexample:
  "refreshed (snd (fetch_missing_tokens_legacy sample_world MAINNET))
     = [\<lparr>name = ''V1: Missing Tokens'', query_id = 1317323, params = []\<rparr>]
   \<and> refreshed (snd (run_missing_tokens sample_world MAINNET))
     = [\<lparr>name = ''V2: Missing Tokens'', query_id = 1842715,
         params = [(''Blockchain'', ''ethereum'')]\<rparr>]
   \<and> \<lparr>name = ''V1: Missing Tokens'', query_id = 1317323, params = []\<rparr>
       \<notin> set (refreshed (snd (run_missing_tokens sample_world MAINNET)))"
proof -
  have h: "environ sample_world ''INFURA_KEY'' = Some ''infura''"
    "node_url sample_world MAINNET ''infura'' = Inr ''https://node.example/infura''"
    "environ sample_world ''DUNE_API_KEY'' = Some ''dune''"
    by (simp_all add: sample_world_def)
  have l: "refreshed (snd (fetch_missing_tokens_legacy sample_world MAINNET))
     = [\<lparr>name = ''V1: Missing Tokens'', query_id = 1317323, params = []\<rparr>]"
    by (simp add: fetch_missing_tokens_legacy_def sample_world_def)
  have r: "refreshed (snd (run_missing_tokens sample_world MAINNET))
     = [\<lparr>name = ''V2: Missing Tokens'', query_id = 1842715,
         params = [(''Blockchain'', ''ethereum'')]\<rparr>]"
    by (simp add: run_unfold [OF h sample_fetch] refreshed_append body_refreshed)
  from l r show ?thesis by simp
qed

subsection \<open>The work set\<close>

text \<open>
  Claim C4, as amended. The work set \<^verbatim>\<open>set(self.v1 + self.v2)\<close> has at most
  \<open>|v1| + |v2|\<close> elements, and exactly that many if and only if the two lists share no
  address and neither repeats one. For identical lists its size is the number of distinct
  addresses of \<open>v1\<close>, which is \<open>|v1|\<close> when \<open>v1\<close> repeats none.
\<close>

theorem work_set_cardinality:
  "card (get_all_tokens mt) \<le> length (v1 mt) + length (v2 mt)
   \<and> (card (get_all_tokens mt) = length (v1 mt) + length (v2 mt)
        \<longleftrightarrow> distinct (v1 mt) \<and> distinct (v2 mt) \<and> set (v1 mt) \<inter> set (v2 mt) = {})
   \<and> (v1 mt = v2 mt \<longrightarrow> card (get_all_tokens mt) = card (set (v1 mt)))
   \<and> (v1 mt = v2 mt \<and> distinct (v1 mt) \<longrightarrow> card (get_all_tokens mt) = length (v1 mt))"
proof -
  have le: "card (set (v1 mt @ v2 mt)) \<le> length (v1 mt @ v2 mt)"
    by (rule card_length)
  have eq: "card (set (v1 mt @ v2 mt)) = length (v1 mt @ v2 mt) \<longleftrightarrow> distinct (v1 mt @ v2 mt)"
    using card_distinct distinct_card by blast
  have same: "v1 mt = v2 mt \<Longrightarrow> set (v1 mt @ v2 mt) = set (v1 mt)"
    by simp
  show ?thesis
    using le eq same unfolding get_all_tokens_def
    by (auto simp: distinct_card)
qed

text \<open>Two disjoint one-element lists give a work set of two, two identical ones of one.\<close>

theorem work_set_cardinality_witness:
  "card (get_all_tokens \<lparr>v1 = [Address BLUE_TOKEN], v2 = [Address NATIVE_ASSET]\<rparr>) = 2
   \<and> card (get_all_tokens \<lparr>v1 = [Address BLUE_TOKEN], v2 = [Address BLUE_TOKEN]\<rparr>) = 1"
  using work_set_cardinality [of "\<lparr>v1 = [Address BLUE_TOKEN], v2 = [Address NATIVE_ASSET]\<rparr>"]
        work_set_cardinality [of "\<lparr>v1 = [Address BLUE_TOKEN], v2 = [Address BLUE_TOKEN]\<rparr>"]
  by (simp add: BLUE_TOKEN_def NATIVE_ASSET_def)

text \<open>The claim as it was stated fails when a list repeats an address: \<open>v1\<close> with the same
  address twice and an empty \<open>v2\<close> are disjoint, and the work set has one element, not two;
  the same \<open>v1\<close> taken for both lists gives a work set of one element, not \<open>|v1| = 2\<close>.\<close>

theorem work_set_cardinality_counterexample:
  "set (v1 \<lparr>v1 = [Address BLUE_TOKEN, Address BLUE_TOKEN], v2 = []\<rparr>)
     \<inter> set (v2 \<lparr>v1 = [Address BLUE_TOKEN, Address BLUE_TOKEN], v2 = []\<rparr>) = {}
   \<and> card (get_all_tokens \<lparr>v1 = [Address BLUE_TOKEN, Address BLUE_TOKEN], v2 = []\<rparr>)
       \<noteq> length (v1 \<lparr>v1 = [Address BLUE_TOKEN, Address BLUE_TOKEN], v2 = []\<rparr>)
         + length (v2 \<lparr>v1 = [Address BLUE_TOKEN, Address BLUE_TOKEN], v2 = []\<rparr>)
   \<and> card (get_all_tokens \<lparr>v1 = [Address BLUE_TOKEN, Address BLUE_TOKEN],
                            v2 = [Address BLUE_TOKEN, Address BLUE_TOKEN]\<rparr>)
       \<noteq> length (v1 \<lparr>v1 = [Address BLUE_TOKEN, Address BLUE_TOKEN],
                      v2 = [Address BLUE_TOKEN, Address BLUE_TOKEN]\<rparr>)"
  by (simp add: get_all_tokens_def)

subsection \<open>The renderings\<close>

text \<open>
  Claim C5, as amended. On mainnet \<^verbatim>\<open>as_v1_string\<close> returns two backslash characters and
  the letter x, the address without its first two characters, a tab, the symbol, a tab
  and the decimals; on gnosis it returns
  \<^verbatim>\<open>('<symbol>', <decimals>, decode('<address without its first two characters>', 'hex')),\<close>.
\<close>

theorem as_v1_string_format:
  "as_v1_string d MAINNET =
     Inr ([BACKSLASH, BACKSLASH, CHR ''x''] @ drop 2 (td_address d) @ [TAB] @ symbol d @ [TAB]
          @ str_int (decimals d))
   \<and> as_v1_string d GNOSIS =
     Inr ([CHR ''('', QUOTE] @ symbol d @ [QUOTE, CHR '','', CHR '' ''] @ str_int (decimals d)
          @ '', decode('' @ [QUOTE] @ drop 2 (td_address d) @ [QUOTE] @ '', '' @ [QUOTE]
          @ ''hex'' @ [QUOTE] @ '')),'')"
  by (simp add: as_v1_string_def)

text \<open>The claim as it was stated has one backslash before the x. For the token of the
  comment in the source, the mainnet line is not the line with a single backslash.\<close>

theorem as_v1_string_format_counterexample:
  "as_v1_string \<lparr>td_address = ''0x96B00208911d72eA9f10c3303fF319427A7884C9'', symbol = ''BLUE'',
                 decimals = 18\<rparr> MAINNET
   \<noteq> Inr ([BACKSLASH, CHR ''x''] @ ''96B00208911d72eA9f10c3303fF319427A7884C9'' @ [TAB]
           @ ''BLUE'' @ [TAB] @ ''18'')"
  by (simp add: as_v1_string_def)

text \<open>
  Claim C6. \<^verbatim>\<open>as_v2_string\<close> takes no network and returns
  \<^verbatim>\<open>('<lower-cased address>', '<symbol>', <decimals>),\<close>; for the record of the
  specification's example it returns
  \<^verbatim>\<open>('0xfcc5c47be19d06bf83eb04298b026f81069ff65', 'yCRV', 18),\<close>.
\<close>

theorem as_v2_string_format:
  "as_v2_string d =
     [CHR ''('', QUOTE] @ lower (td_address d) @ [QUOTE, CHR '','', CHR '' '', QUOTE] @ symbol d
     @ [QUOTE, CHR '','', CHR '' ''] @ str_int (decimals d) @ ''),''
   \<and> as_v2_string \<lparr>td_address = ''0xFCc5c47bE19d06bF83eB04298b026F81069FF65'',
                    symbol = ''yCRV'', decimals = 18\<rparr>
     = [CHR ''('', QUOTE] @ ''0xfcc5c47be19d06bf83eb04298b026f81069ff65''
       @ [QUOTE, CHR '','', CHR '' '', QUOTE] @ ''yCRV'' @ [QUOTE] @ '', 18),''"
  by (simp add: as_v2_string_def lower_def lower_char_def str_int_def digit_char_def)

text \<open>
  Claim C7. \<^verbatim>\<open>as_v1_string\<close> is a function of the record and the network alone. It
  raises if and only if the network is neither \<^verbatim>\<open>MAINNET\<close> nor \<^verbatim>\<open>GNOSIS\<close>; what it
  raises then is \<^verbatim>\<open>ValueError("Incompatible Network ...")\<close>, the exception the
  specification calls UnsupportedNetworkError, and no line is returned; on \<^verbatim>\<open>MAINNET\<close>
  and \<^verbatim>\<open>GNOSIS\<close> it returns a line.
\<close>

theorem as_v1_string_fails_iff:
  "(isl (as_v1_string d chain) \<longleftrightarrow> chain \<noteq> MAINNET \<and> chain \<noteq> GNOSIS)
   \<and> (chain \<noteq> MAINNET \<and> chain \<noteq> GNOSIS \<longrightarrow>
        as_v1_string d chain = Inl (ValueError (''Incompatible Network '' @ str_Network chain)))
   \<and> (chain = MAINNET \<or> chain = GNOSIS \<longrightarrow> (\<exists>line. as_v1_string d chain = Inr line))"
  by (auto simp: as_v1_string_def)

theorem as_v1_string_fails_iff_witness:
  "as_v1_string \<lparr>td_address = BLUE_TOKEN, symbol = ''BLUE'', decimals = 18\<rparr>
       (OtherNetwork ''Network.POLYGON'')
     = Inl (ValueError ''Incompatible Network Network.POLYGON'')
   \<and> \<not> isl (as_v1_string \<lparr>td_address = BLUE_TOKEN, symbol = ''BLUE'', decimals = 18\<rparr> GNOSIS)"
  using as_v1_string_fails_iff
          [of "\<lparr>td_address = BLUE_TOKEN, symbol = ''BLUE'', decimals = 18\<rparr>"
              "OtherNetwork ''Network.POLYGON''"]
        as_v1_string_fails_iff
          [of "\<lparr>td_address = BLUE_TOKEN, symbol = ''BLUE'', decimals = 18\<rparr>" GNOSIS]
  by simp

subsection \<open>The native asset\<close>

text \<open>
  Claim C8. For an address whose checksummed form is that of the native-asset constant,
  the constructor returns the record with symbol ETH and decimals 18 and causes no event:
  neither \<^verbatim>\<open>symbol()\<close> nor \<^verbatim>\<open>decimals()\<close> is read from a contract.
\<close>

theorem native_asset_without_contract_call:
  assumes "toChecksumAddress w (address a) = Inr c"
      and "toChecksumAddress w NATIVE_ASSET = Inr c"
  shows "TokenDetails_init w a = (Inr \<lparr>td_address = c, symbol = ''ETH'', decimals = 18\<rparr>, [])
         \<and> contract_calls (snd (TokenDetails_init w a)) = []"
  using assms by (simp add: TokenDetails_init_def)

theorem native_asset_without_contract_call_witness:
  "toChecksumAddress sample_world (address (Address NATIVE_ASSET)) = Inr NATIVE_ASSET
   \<and> toChecksumAddress sample_world NATIVE_ASSET = Inr NATIVE_ASSET
   \<and> TokenDetails_init sample_world (Address NATIVE_ASSET)
       = (Inr \<lparr>td_address = NATIVE_ASSET, symbol = ''ETH'', decimals = 18\<rparr>, [])"
proof -
  have h1: "toChecksumAddress sample_world (address (Address NATIVE_ASSET)) = Inr NATIVE_ASSET"
    by (simp add: sample_world_def)
  have h2: "toChecksumAddress sample_world NATIVE_ASSET = Inr NATIVE_ASSET"
    by (simp add: sample_world_def)
  from native_asset_without_contract_call [OF h1 h2] h1 h2 show ?thesis
    by simp
qed

subsection \<open>The short circuit\<close>

text \<open>
  Claim C9. If both lists of the batch are empty, the run returns normally, prints that
  no token is missing, constructs no \<^verbatim>\<open>TokenDetails\<close>, reads no contract and writes no
  file. Otherwise, on \<^verbatim>\<open>MAINNET\<close> or \<^verbatim>\<open>GNOSIS\<close> or with an empty v1 list, it resolves
  the addresses of the work set and writes the two files, v1 first. The second part
  restates both cases for \<^verbatim>\<open>run_missing_tokens\<close> itself, on any network, once the
  environment and the query gave the list \<open>fetched\<close>.
\<close>

theorem short_circuit_or_both_files:
  "((is_empty mt \<longrightarrow>
      run_missing_tokens_body w chain mt = (Inr (), [Print (NoMissingTokens chain)])
      \<and> written (snd (run_missing_tokens_body w chain mt)) = []
      \<and> constructed (snd (run_missing_tokens_body w chain mt)) = []
      \<and> contract_calls (snd (run_missing_tokens_body w chain mt)) = [])
   \<and> (\<not> is_empty mt \<and> visits_each_once w (get_all_tokens mt)
        \<and> (chain = MAINNET \<or> chain = GNOSIS \<or> v1 mt = []) \<longrightarrow>
      fst (run_missing_tokens_body w chain mt) = Inr ()
      \<and> set (constructed (snd (run_missing_tokens_body w chain mt))) = get_all_tokens mt
      \<and> map fst (written (snd (run_missing_tokens_body w chain mt)))
          = [''missing-tokens-v1.txt'', ''missing-tokens-v2.txt'']
      \<and> Print (NoMissingTokens chain) \<notin> set (snd (run_missing_tokens_body w chain mt))))
   \<and> (\<forall>k url dk fetched es.
        environ w ''INFURA_KEY'' = Some k \<and> node_url w chain k = Inr url
        \<and> environ w ''DUNE_API_KEY'' = Some dk
        \<and> fetch_missing_tokens w chain = (Inr fetched, es) \<longrightarrow>
          (fetched = [] \<longrightarrow>
            run_missing_tokens w chain = (Inr (), es @ [Print (NoMissingTokens chain)])
            \<and> written (snd (run_missing_tokens w chain)) = []
            \<and> constructed (snd (run_missing_tokens w chain)) = [])
          \<and> (fetched \<noteq> [] \<and> visits_each_once w (set fetched) \<longrightarrow>
            fst (run_missing_tokens w chain) = Inr ()
            \<and> set (constructed (snd (run_missing_tokens w chain))) = set fetched
            \<and> map fst (written (snd (run_missing_tokens w chain)))
                = [''missing-tokens-v1.txt'', ''missing-tokens-v2.txt'']))"
proof (rule conjI)
  show "(is_empty mt \<longrightarrow>
      run_missing_tokens_body w chain mt = (Inr (), [Print (NoMissingTokens chain)])
      \<and> written (snd (run_missing_tokens_body w chain mt)) = []
      \<and> constructed (snd (run_missing_tokens_body w chain mt)) = []
      \<and> contract_calls (snd (run_missing_tokens_body w chain mt)) = [])
   \<and> (\<not> is_empty mt \<and> visits_each_once w (get_all_tokens mt)
        \<and> (chain = MAINNET \<or> chain = GNOSIS \<or> v1 mt = []) \<longrightarrow>
      fst (run_missing_tokens_body w chain mt) = Inr ()
      \<and> set (constructed (snd (run_missing_tokens_body w chain mt))) = get_all_tokens mt
      \<and> map fst (written (snd (run_missing_tokens_body w chain mt)))
          = [''missing-tokens-v1.txt'', ''missing-tokens-v2.txt'']
      \<and> Print (NoMissingTokens chain) \<notin> set (snd (run_missing_tokens_body w chain mt)))"
    by (rule short_circuit_body)
next
  show "\<forall>k url dk fetched es.
        environ w ''INFURA_KEY'' = Some k \<and> node_url w chain k = Inr url
        \<and> environ w ''DUNE_API_KEY'' = Some dk
        \<and> fetch_missing_tokens w chain = (Inr fetched, es) \<longrightarrow>
          (fetched = [] \<longrightarrow>
            run_missing_tokens w chain = (Inr (), es @ [Print (NoMissingTokens chain)])
            \<and> written (snd (run_missing_tokens w chain)) = []
            \<and> constructed (snd (run_missing_tokens w chain)) = [])
          \<and> (fetched \<noteq> [] \<and> visits_each_once w (set fetched) \<longrightarrow>
            fst (run_missing_tokens w chain) = Inr ()
            \<and> set (constructed (snd (run_missing_tokens w chain))) = set fetched
            \<and> map fst (written (snd (run_missing_tokens w chain)))
                = [''missing-tokens-v1.txt'', ''missing-tokens-v2.txt''])"
  proof (intro allI impI, elim conjE)
    fix k url dk fetched es
    assume "environ w ''INFURA_KEY'' = Some k" and "node_url w chain k = Inr url"
      and "environ w ''DUNE_API_KEY'' = Some dk"
      and "fetch_missing_tokens w chain = (Inr fetched, es)"
    then show "(fetched = [] \<longrightarrow>
            run_missing_tokens w chain = (Inr (), es @ [Print (NoMissingTokens chain)])
            \<and> written (snd (run_missing_tokens w chain)) = []
            \<and> constructed (snd (run_missing_tokens w chain)) = [])
          \<and> (fetched \<noteq> [] \<and> visits_each_once w (set fetched) \<longrightarrow>
            fst (run_missing_tokens w chain) = Inr ()
            \<and> set (constructed (snd (run_missing_tokens w chain))) = set fetched
            \<and> map fst (written (snd (run_missing_tokens w chain)))
                = [''missing-tokens-v1.txt'', ''missing-tokens-v2.txt''])"
      by (rule run_short_circuit_or_both_files)
  qed
qed

theorem short_circuit_or_both_files_witness:
  "is_empty \<lparr>v1 = [], v2 = []\<rparr>
   \<and> run_missing_tokens_body sample_world MAINNET \<lparr>v1 = [], v2 = []\<rparr>
       = (Inr (), [Print (NoMissingTokens MAINNET)])
   \<and> \<not> is_empty sample_batch
   \<and> visits_each_once sample_world (get_all_tokens sample_batch)
   \<and> map fst (written (snd (run_missing_tokens_body sample_world MAINNET sample_batch)))
       = [''missing-tokens-v1.txt'', ''missing-tokens-v2.txt'']"
proof -
  have e: "is_empty \<lparr>v1 = [], v2 = []\<rparr>"
    by (simp add: is_empty_def)
  have n: "\<not> is_empty sample_batch"
    by (simp add: is_empty_def sample_batch_def)
  from short_circuit_or_both_files [of "\<lparr>v1 = [], v2 = []\<rparr>" sample_world MAINNET]
       short_circuit_or_both_files [of sample_batch sample_world MAINNET]
       e n sample_visits
  show ?thesis by simp
qed

subsection \<open>The dictionary and the skip list\<close>

text \<open>
  Claim C10. After the loop, the keys of \<^verbatim>\<open>token_details\<close> and the elements of
  \<^verbatim>\<open>skipped\<close> partition the work set. So every address of v1 or v2 that is not skipped
  is a key of the dictionary, and neither comprehension raises \<^verbatim>\<open>KeyError\<close>.
\<close>

theorem resolved_and_skipped_partition:
  assumes vis: "visits_each_once w (get_all_tokens mt)"
      and res: "resolution w mt = (token_details, skipped, es)"
  shows "dom token_details \<union> set skipped = get_all_tokens mt
         \<and> dom token_details \<inter> set skipped = {}
         \<and> (\<forall>t\<in>set (v1 mt) \<union> set (v2 mt). t \<notin> set skipped \<longrightarrow> token_details t \<noteq> None)
         \<and> (\<forall>k. comprehension (\<lambda>d. as_v1_string d chain) token_details skipped (v1 mt)
                  \<noteq> Inl (KeyError k))
         \<and> (\<forall>k. comprehension (\<lambda>d. Inr (as_v2_string d)) token_details skipped (v2 mt)
                  \<noteq> Inl (KeyError k))"
proof -
  from vis have iter: "set (set_iter w (get_all_tokens mt)) = get_all_tokens mt"
    by (simp add: visits_each_once_def)
  from res have td: "token_details = (\<lambda>a. if a \<in> get_all_tokens mt
            then (case resolve w a of Inr d \<Rightarrow> Some d | Inl e \<Rightarrow> None) else None)"
    and sk: "set skipped = {a \<in> get_all_tokens mt. isl (resolve w a)}"
    by (auto simp: resolution_closed iter)
  have dom: "dom token_details = {a \<in> get_all_tokens mt. \<not> isl (resolve w a)}"
    by (auto simp: td split: sum.splits if_splits)
  have part: "dom token_details \<union> set skipped = get_all_tokens mt"
    "dom token_details \<inter> set skipped = {}"
    by (auto simp: dom sk)
  have look: "\<forall>t\<in>set (v1 mt) \<union> set (v2 mt). t \<notin> set skipped \<longrightarrow> token_details t \<noteq> None"
  proof (intro ballI impI)
    fix t assume "t \<in> set (v1 mt) \<union> set (v2 mt)" and "t \<notin> set skipped"
    then have "t \<in> get_all_tokens mt" and "t \<notin> set skipped"
      by (simp_all add: get_all_tokens_def)
    with part have "t \<in> dom token_details" by blast
    then show "token_details t \<noteq> None" by blast
  qed
  have k1: "comprehension (\<lambda>d. as_v1_string d chain) token_details skipped (v1 mt)
              \<noteq> Inl (KeyError k)" for k
  proof
    assume "comprehension (\<lambda>d. as_v1_string d chain) token_details skipped (v1 mt)
              = Inl (KeyError k)"
    from comprehension_error [OF this] look
    obtain d where "as_v1_string d chain = Inl (KeyError k)" by auto
    then show False
      by (simp add: as_v1_string_def split: if_splits)
  qed
  have k2: "comprehension (\<lambda>d. Inr (as_v2_string d)) token_details skipped (v2 mt)
              \<noteq> Inl (KeyError k)" for k
  proof
    assume "comprehension (\<lambda>d. Inr (as_v2_string d)) token_details skipped (v2 mt)
              = Inl (KeyError k)"
    from comprehension_error [OF this] look
    obtain d where "(Inr (as_v2_string d) :: error + string) = Inl (KeyError k)" by auto
    then show False by simp
  qed
  from part look k1 k2 show ?thesis by blast
qed

theorem resolved_and_skipped_partition_witness:
  "visits_each_once sample_world (get_all_tokens sample_batch)
   \<and> dom (fst (resolution sample_world sample_batch))
       \<union> set (fst (snd (resolution sample_world sample_batch)))
     = get_all_tokens sample_batch
   \<and> dom (fst (resolution sample_world sample_batch))
       \<inter> set (fst (snd (resolution sample_world sample_batch))) = {}"
proof -
  have "resolution sample_world sample_batch =
          (fst (resolution sample_world sample_batch),
           fst (snd (resolution sample_world sample_batch)),
           snd (snd (resolution sample_world sample_batch)))"
    by simp
  from resolved_and_skipped_partition [OF sample_visits this] sample_visits
  show ?thesis by blast
qed

end
